theory Spec2Isabelle
  imports Complex_Main "HOL-Library.Monad_Syntax"
begin

section \<open>The input counter store of \<open>ags/widget/inputCountsState.ts\<close>\<close>

text \<open>
  The module keeps one \<open>InputState\<close> record per day, fed by the lines of
  \<open>libinput debug-events\<close>, and writes it to disk through a debounce timer.
  The embedding follows the source function by function. What the module keeps in
  top-level variables (\<open>state\<close>, \<open>saveSource\<close>, \<open>deviceTypes\<close>,
  \<open>pressedByEvent\<close>) is one record \<open>sys\<close> that every operation takes and
  returns.
\<close>

subsection \<open>Numbers\<close>

text \<open>
  A TypeScript \<open>number\<close>: a finite value, \<open>NaN\<close> or an infinity. Finite values
  are rationals and arithmetic on them is exact: the rounding of binary64 is not
  modelled (it first changes a counter that is incremented by one at \<open>2^53\<close>).
\<close>

datatype jsnum = Num rat | NaN | PosInf | NegInf

text \<open>The operator \<open>+\<close> on two numbers.\<close>

fun js_add :: "jsnum \<Rightarrow> jsnum \<Rightarrow> jsnum" where
  "js_add (Num a) (Num b) = Num (a + b)"
| "js_add NaN _ = NaN"
| "js_add _ NaN = NaN"
| "js_add PosInf NegInf = NaN"
| "js_add NegInf PosInf = NaN"
| "js_add PosInf _ = PosInf"
| "js_add _ PosInf = PosInf"
| "js_add NegInf _ = NegInf"
| "js_add _ NegInf = NegInf"

text \<open>The operator \<open>></\<close>: false as soon as one side is \<open>NaN\<close>.\<close>

fun js_gt :: "jsnum \<Rightarrow> jsnum \<Rightarrow> bool" where
  "js_gt (Num a) (Num b) = (b < a)"
| "js_gt NaN _ = False"
| "js_gt _ NaN = False"
| "js_gt PosInf PosInf = False"
| "js_gt PosInf _ = True"
| "js_gt _ PosInf = False"
| "js_gt NegInf _ = False"
| "js_gt _ NegInf = True"

text \<open>The operator \<open>===\<close> on two numbers: \<open>NaN\<close> equals nothing.\<close>

definition js_eq :: "jsnum \<Rightarrow> jsnum \<Rightarrow> bool" where
  "js_eq a b = (a \<noteq> NaN \<and> a = b)"

definition Number_isFinite :: "jsnum \<Rightarrow> bool" where
  "Number_isFinite x = (case x of Num _ \<Rightarrow> True | _ \<Rightarrow> False)"

definition Math_abs :: "jsnum \<Rightarrow> jsnum" where
  "Math_abs x = (case x of Num q \<Rightarrow> Num \<bar>q\<bar> | NaN \<Rightarrow> NaN | _ \<Rightarrow> PosInf)"

text \<open>A number in a condition: \<open>0\<close> and \<open>NaN\<close> are false.\<close>

definition num_truthy :: "jsnum \<Rightarrow> bool" where
  "num_truthy x = (x \<noteq> Num 0 \<and> x \<noteq> NaN)"


subsection \<open>Plain objects used as dictionaries\<close>

text \<open>
  An object literal \<open>{}\<close> that is filled by assignment is the list of its own
  properties, in insertion order. Reading a name gives the own property.
  Assigning to an own name replaces the value in place, assigning to a new name appends
  it. The name \<open>__proto__\<close> is the one exception: on an object made by \<open>{}\<close> it is
  the accessor inherited from \<open>Object.prototype\<close>, whose setter ignores every value
  that is neither an object nor null, so assigning a number to it creates no property.
  Reading a name that \<open>Object.prototype\<close> defines as a method (\<open>constructor\<close>,
  \<open>toString\<close>, ...) would give the inherited function. The module reads such an
  object only in \<open>bumpKey\<close>, under names that start with \<open>KEY_\<close> (shown with
  the key counts below); for these the read is that of the own property.
\<close>

definition obj_get :: "(string \<times> 'a) list \<Rightarrow> string \<Rightarrow> 'a option" where
  "obj_get obj k = map_of obj k"

fun obj_put :: "(string \<times> 'a) list \<Rightarrow> string \<Rightarrow> 'a \<Rightarrow> (string \<times> 'a) list" where
  "obj_put [] k v = [(k, v)]"
| "obj_put ((k', v') # obj) k v =
     (if k' = k then (k, v) # obj else (k', v') # obj_put obj k v)"

definition obj_set :: "(string \<times> 'a) list \<Rightarrow> string \<Rightarrow> 'a \<Rightarrow> (string \<times> 'a) list" where
  "obj_set obj k v = (if k = ''__proto__'' then obj else obj_put obj k v)"

subsection \<open>The aggregation record\<close>

record InputState =
  date :: string
  startedAt :: jsnum
  left :: jsnum
  right :: jsnum
  keys :: jsnum
  leftMouse :: jsnum
  rightMouse :: jsnum
  leftPad :: jsnum
  rightPad :: jsnum
  scrollUp :: jsnum
  scrollDown :: jsnum
  scrollLeft :: jsnum
  scrollRight :: jsnum
  keyCounts :: "(string \<times> jsnum) list"

datatype DeviceType = DevMouse | DevTouchpad | DevKeyboard | DevUnknown

datatype side = SideLeft | SideRight

datatype source = Mouse | Touchpad

record PressedState =
  pressed_left :: bool
  pressed_right :: bool

definition SAVE_DELAY_MS :: nat where
  "SAVE_DELAY_MS = 2000"

text \<open>
  \<open>defaultState\<close> reads the local day (\<open>todayKey()\<close>) and the wall clock
  (\<open>Date.now()\<close>); both readings are arguments.
\<close>

definition defaultState :: "string \<Rightarrow> jsnum \<Rightarrow> InputState" where
  "defaultState today now =
     \<lparr> date = today, startedAt = now, left = Num 0, right = Num 0, keys = Num 0,
       leftMouse = Num 0, rightMouse = Num 0, leftPad = Num 0, rightPad = Num 0,
       scrollUp = Num 0, scrollDown = Num 0, scrollLeft = Num 0, scrollRight = Num 0,
       keyCounts = [] \<rparr>"

subsection \<open>The module's variables and the save timer\<close>

text \<open>
  \<open>state\<close> is the value held by \<open>createState\<close>. \<open>saveSource\<close> is \<open>None\<close> for
  \<open>null\<close> and otherwise the armed one-shot timer, kept as the time from which the
  main loop may run its callback. \<open>writes\<close> lists the records handed to
  \<open>saveState\<close>, oldest first: \<open>saveState\<close> serialises its argument and writes the
  file, and swallows an I/O error. \<open>clock\<close> is the main loop's time in milliseconds.
\<close>

record sys =
  state :: InputState
  saveSource :: "nat option"
  writes :: "InputState list"
  clock :: nat
  deviceTypes :: "string \<Rightarrow> DeviceType option"
  pressedByEvent :: "string \<Rightarrow> PressedState option"

definition saveState :: "InputState \<Rightarrow> sys \<Rightarrow> sys" where
  "saveState st s = s\<lparr>writes := writes s @ [st]\<rparr>"

definition queueSave :: "sys \<Rightarrow> sys" where
  "queueSave s =
     (if saveSource s \<noteq> None then s
      else s\<lparr>saveSource := Some (clock s + SAVE_DELAY_MS)\<rparr>)"



subsection \<open>The increment operations\<close>

text \<open>The function given to \<open>setState\<close> in \<open>bumpClick\<close>.\<close>

definition bumpClick_next :: "side \<Rightarrow> source \<Rightarrow> InputState \<Rightarrow> InputState" where
  "bumpClick_next sd src prev =
     (case sd of
        SideLeft \<Rightarrow>
          prev\<lparr> left := js_add (left prev) (Num 1),
                leftMouse := js_add (leftMouse prev) (Num (if src = Mouse then 1 else 0)),
                leftPad := js_add (leftPad prev) (Num (if src = Touchpad then 1 else 0)) \<rparr>
      | SideRight \<Rightarrow>
          prev\<lparr> right := js_add (right prev) (Num 1),
                rightMouse := js_add (rightMouse prev) (Num (if src = Mouse then 1 else 0)),
                rightPad := js_add (rightPad prev) (Num (if src = Touchpad then 1 else 0)) \<rparr>)"

definition bumpClick :: "side \<Rightarrow> source \<Rightarrow> sys \<Rightarrow> sys" where
  "bumpClick sd src s = queueSave (s\<lparr>state := bumpClick_next sd src (state s)\<rparr>)"

text \<open>The function given to \<open>setState\<close> in \<open>bumpKey\<close>.\<close>

definition bumpKey_next :: "string \<Rightarrow> InputState \<Rightarrow> InputState" where
  "bumpKey_next keyName prev =
     (let kc = keyCounts prev;
          kc' = obj_set kc keyName
                  (js_add (case obj_get kc keyName of Some n \<Rightarrow> n | None \<Rightarrow> Num 0) (Num 1))
      in prev\<lparr> keys := js_add (keys prev) (Num 1), keyCounts := kc' \<rparr>)"

definition bumpKey :: "string \<Rightarrow> sys \<Rightarrow> sys" where
  "bumpKey keyName s = queueSave (s\<lparr>state := bumpKey_next keyName (state s)\<rparr>)"

text \<open>An argument of \<open>bumpScroll\<close> is a number or \<open>null\<close>; \<open>null\<close> is false.\<close>

definition axis_truthy :: "jsnum option \<Rightarrow> bool" where
  "axis_truthy a = (case a of None \<Rightarrow> False | Some x \<Rightarrow> num_truthy x)"

definition bumpScroll_next :: "jsnum option \<Rightarrow> jsnum option \<Rightarrow> InputState \<Rightarrow> InputState" where
  "bumpScroll_next vertical horizontal prev =
     (let n1 =
            (case vertical of
               Some v \<Rightarrow>
                 if num_truthy v \<and> Number_isFinite v then
                   (if js_gt v (Num 0) then prev\<lparr>scrollUp := js_add (scrollUp prev) v\<rparr>
                    else prev\<lparr>scrollDown := js_add (scrollDown prev) (Math_abs v)\<rparr>)
                 else prev
             | None \<Rightarrow> prev)
      in case horizontal of
           Some h \<Rightarrow>
             if num_truthy h \<and> Number_isFinite h then
               (if js_gt h (Num 0) then n1\<lparr>scrollRight := js_add (scrollRight prev) h\<rparr>
                else n1\<lparr>scrollLeft := js_add (scrollLeft prev) (Math_abs h)\<rparr>)
             else n1
         | None \<Rightarrow> n1)"

definition bumpScroll :: "jsnum option \<Rightarrow> jsnum option \<Rightarrow> sys \<Rightarrow> sys" where
  "bumpScroll vertical horizontal s =
     (if \<not> axis_truthy vertical \<and> \<not> axis_truthy horizontal then s
      else queueSave (s\<lparr>state := bumpScroll_next vertical horizontal (state s)\<rparr>))"

text \<open>
  \<open>ensureToday\<close>, run by the day-check timer. The fresh record is handed to
  \<open>saveState\<close> inside the update function, not to \<open>queueSave\<close>.
\<close>

definition ensureToday :: "string \<Rightarrow> jsnum \<Rightarrow> sys \<Rightarrow> sys" where
  "ensureToday today now s =
     (let prev = state s in
      if date prev = today then s
      else (let next = (defaultState today now)\<lparr>date := today\<rparr>
            in (saveState next s)\<lparr>state := next\<rparr>))"

subsection \<open>Parsed JSON and the conversions of the platform\<close>

text \<open>
  A value returned by \<open>JSON.parse\<close>. An object is the list of its own properties in
  the order \<open>Object.entries\<close> gives them; \<open>JSON.parse\<close> returns objects whose
  names are distinct.
\<close>

datatype json =
  JNull | JBool bool | JNum jsnum | JStr string | JArr "json list" | JObj "(string \<times> json) list"

text \<open>
  What the module takes from the JavaScript runtime and is not written in it:
  \<open>JSON.parse\<close> (\<open>None\<close> when it throws), and the conversions \<open>Number(v)\<close> and
  \<open>String(v)\<close> of a string, an array or an object (\<open>None\<close> when the conversion
  throws a \<open>TypeError\<close>, as it does for an object whose own \<open>toString\<close> is not a
  function). Every theorem below holds for all three functions.
\<close>

record platform =
  JSON_parse :: "string \<Rightarrow> json option"
  Number_conv :: "json \<Rightarrow> jsnum option"
  String_conv :: "json \<Rightarrow> string option"

text \<open>
  Reading a property \<open>v.k\<close> of a parsed value; \<open>None\<close> is \<open>undefined\<close>. The module
  reads only names that no prototype defines for the value at hand.
\<close>

definition get_prop :: "json \<Rightarrow> string \<Rightarrow> json option" where
  "get_prop v k = (case v of JObj ps \<Rightarrow> map_of ps k | _ \<Rightarrow> None)"

definition truthy :: "json \<Rightarrow> bool" where
  "truthy v =
     (case v of
        JNull \<Rightarrow> False
      | JBool b \<Rightarrow> b
      | JNum x \<Rightarrow> num_truthy x
      | JStr str \<Rightarrow> str \<noteq> []
      | JArr _ \<Rightarrow> True
      | JObj _ \<Rightarrow> True)"

text \<open>\<open>typeof v === "object"\<close>\<close>

definition typeof_object :: "json \<Rightarrow> bool" where
  "typeof_object v = (case v of JNull \<Rightarrow> True | JArr _ \<Rightarrow> True | JObj _ \<Rightarrow> True | _ \<Rightarrow> False)"

text \<open>\<open>Number(v)\<close> for a value that may be \<open>undefined\<close>.\<close>

definition Number_js :: "platform \<Rightarrow> json option \<Rightarrow> jsnum option" where
  "Number_js P v =
     (case v of
        None \<Rightarrow> Some NaN
      | Some JNull \<Rightarrow> Some (Num 0)
      | Some (JBool b) \<Rightarrow> Some (Num (if b then 1 else 0))
      | Some (JNum x) \<Rightarrow> Some x
      | Some w \<Rightarrow> Number_conv P w)"








subsection \<open>Strings and the regular expressions of the watcher\<close>

text \<open>
  A string is the list of its code units; the model covers the code units
  \<open>U+0000\<close> to \<open>U+00FF\<close>. The module compares text with ASCII words only.
  \<open>toLowerCase\<close> is given on the letters \<open>A\<close>-\<open>Z\<close>: JavaScript maps no other
  code unit of this range to an ASCII character, and a regular expression with the flag
  \<open>i\<close> (and without \<open>u\<close>) never equates a code unit outside ASCII with one
  inside, so every comparison has the value it has in JavaScript. \<open>\s\<close> and
  \<open>trim\<close> take tab, line feed, vertical tab, form feed, carriage return, space and
  the no-break space; \<open>\d\<close> is \<open>0\<close>-\<open>9\<close> and \<open>\w\<close> is an ASCII letter, a
  digit or \<open>_\<close>.
\<close>

definition is_digit :: "char \<Rightarrow> bool" where
  "is_digit c = (c \<in> set ''0123456789'')"

definition is_space :: "char \<Rightarrow> bool" where
  "is_space c = (c \<in> set [CHR 0x09, CHR 0x0A, CHR 0x0B, CHR 0x0C, CHR 0x0D, CHR 0x20, CHR 0xA0])"

definition is_upper :: "char \<Rightarrow> bool" where
  "is_upper c = (c \<in> set ''ABCDEFGHIJKLMNOPQRSTUVWXYZ'')"

definition is_word :: "char \<Rightarrow> bool" where
  "is_word c = (is_digit c \<or> is_upper c \<or> c \<in> set ''abcdefghijklmnopqrstuvwxyz_'')"

definition lower_char :: "char \<Rightarrow> char" where
  "lower_char c =
     (case map_of (zip ''ABCDEFGHIJKLMNOPQRSTUVWXYZ'' ''abcdefghijklmnopqrstuvwxyz'') c of
        Some d \<Rightarrow> d
      | None \<Rightarrow> c)"

definition toLowerCase :: "string \<Rightarrow> string" where
  "toLowerCase str = map lower_char str"

definition trim :: "string \<Rightarrow> string" where
  "trim str = rev (dropWhile is_space (rev (dropWhile is_space str)))"

definition startsWith :: "string \<Rightarrow> string \<Rightarrow> bool" where
  "startsWith str pat = (take (length pat) str = pat)"

fun str_includes :: "string \<Rightarrow> string \<Rightarrow> bool" where
  "str_includes [] pat = (pat = [])"
| "str_includes (c # cs) pat = (startsWith (c # cs) pat \<or> str_includes cs pat)"

text \<open>\<open>/pat/i.test(text)\<close> for a pattern that is a literal word.\<close>

definition test_i :: "string \<Rightarrow> string \<Rightarrow> bool" where
  "test_i pat text = str_includes (toLowerCase text) (toLowerCase pat)"

text \<open>
  The pieces of the other patterns, each matching at the start of the remaining text and
  returning what follows the match. The character classes that follow one another in the
  module's patterns are disjoint, so the greedy match is the only one.
\<close>

definition lit_i :: "string \<Rightarrow> string \<Rightarrow> string option" where
  "lit_i pat str =
     (if toLowerCase (take (length pat) str) = toLowerCase pat
      then Some (drop (length pat) str) else None)"

definition spaces1 :: "string \<Rightarrow> string option" where
  "spaces1 str =
     (case str of
        [] \<Rightarrow> None
      | c # _ \<Rightarrow> if is_space c then Some (dropWhile is_space str) else None)"

definition digits1 :: "string \<Rightarrow> (string \<times> string) option" where
  "digits1 str =
     (if takeWhile is_digit str = [] then None
      else Some (takeWhile is_digit str, dropWhile is_digit str))"

text \<open>The leftmost match: the start positions are tried from the left.\<close>

fun first_match :: "(string \<Rightarrow> 'a option) \<Rightarrow> string \<Rightarrow> 'a option" where
  "first_match m [] = m []"
| "first_match m (c # cs) =
     (case m (c # cs) of Some r \<Rightarrow> Some r | None \<Rightarrow> first_match m cs)"

text \<open>
  The same for a pattern that opens with \<open>\b\<close> and a word character: a start position
  counts when the code unit before it is not a word character.
\<close>

fun first_match_b :: "(string \<Rightarrow> 'a option) \<Rightarrow> bool \<Rightarrow> string \<Rightarrow> 'a option" where
  "first_match_b m after_word [] = None"
| "first_match_b m after_word (c # cs) =
     (case (if after_word then None else m (c # cs)) of
        Some r \<Rightarrow> Some r
      | None \<Rightarrow> first_match_b m (is_word c) cs)"

text \<open>\<open>Number(str)\<close> for a string of digits, below the overflow of binary64.\<close>

definition digits_value :: "string \<Rightarrow> nat" where
  "digits_value ds =
     foldl (\<lambda>n c. 10 * n + length (takeWhile (\<lambda>d. d \<noteq> c) ''0123456789'')) 0 ds"

text \<open>
  A decimal numeral rounds to an infinity from \<open>2^1024 - 2^970\<close> on; this is the one
  effect of binary64 that the module tests (\<open>Number.isFinite\<close>).
\<close>

definition overflows :: "rat \<Rightarrow> bool" where
  "overflows q = (2 ^ 1024 - 2 ^ 970 \<le> \<bar>q\<bar>)"

definition Number_decimal :: "bool \<Rightarrow> string \<Rightarrow> string \<Rightarrow> jsnum" where
  "Number_decimal negative ip fp =
     (let q = of_nat (digits_value ip) + of_nat (digits_value fp) / 10 ^ length fp in
      if overflows q then (if negative then NegInf else PosInf)
      else Num (if negative then - q else q))"

text \<open>\<open>/^event(\d+)/i\<close>, and the identifier the watcher takes from it.\<close>

definition eventId_of :: "string \<Rightarrow> string" where
  "eventId_of text =
     (case do { r \<leftarrow> lit_i ''event'' text; digits1 r } of
        Some (ds, _) \<Rightarrow> ds
      | None \<Rightarrow> ''unknown'')"

definition classifyDevice :: "string \<Rightarrow> DeviceType" where
  "classifyDevice text =
     (let lower = toLowerCase text in
      if str_includes lower ''touchpad'' \<or> str_includes lower ''trackpad'' then DevTouchpad
      else if str_includes lower ''keyboard'' then DevKeyboard
      else if str_includes lower ''mouse'' \<or> str_includes lower ''trackball'' \<or> str_includes lower ''trackpoint''
      then DevMouse
      else DevUnknown)"

text \<open>\<open>parseAxis\<close>: the pattern is \<open>token\s+(-?\d+(?:\.\d+)?)\<close> with the flag \<open>i\<close>.\<close>

definition axis_at :: "string \<Rightarrow> string \<Rightarrow> jsnum option" where
  "axis_at token str =
     do { r \<leftarrow> lit_i token str;
          r1 \<leftarrow> spaces1 r;
          let negative = startsWith r1 ''-'';
          (ip, r2) \<leftarrow> digits1 (if negative then tl r1 else r1);
          let fp = (case r2 of
                      c # r3 \<Rightarrow> if c = CHR ''.'' then takeWhile is_digit r3 else []
                    | [] \<Rightarrow> []);
          Some (Number_decimal negative ip fp) }"

definition parseAxis :: "string \<Rightarrow> string \<Rightarrow> jsnum option" where
  "parseAxis text token =
     (case first_match (axis_at token) text of
        None \<Rightarrow> None
      | Some v \<Rightarrow> if Number_isFinite v then Some v else None)"

text \<open>\<open>/button\s+(\d+)/i\<close>: the digits of the first match.\<close>

definition button_at :: "string \<Rightarrow> string option" where
  "button_at str =
     do { r \<leftarrow> lit_i ''button'' str; r1 \<leftarrow> spaces1 r; (ds, _) \<leftarrow> digits1 r1; Some ds }"

text \<open>\<open>/finger\s+N/i.test(text)\<close> for a digit \<open>N\<close>.\<close>

definition finger_at :: "char \<Rightarrow> string \<Rightarrow> unit option" where
  "finger_at n str =
     do { r \<leftarrow> lit_i ''finger'' str; r1 \<leftarrow> spaces1 r;
          if startsWith r1 [n] then Some () else None }"

text \<open>
  \<open>/(\d+)\s*$/\<close>: the leftmost match is the longest run of digits that only white
  space separates from the end.
\<close>

definition trailing_digits :: "string \<Rightarrow> string option" where
  "trailing_digits text =
     (let ds = rev (takeWhile is_digit (dropWhile is_space (rev text))) in
      if ds = [] then None else Some ds)"

text \<open>The three patterns of the key name.\<close>

definition is_key_char :: "char \<Rightarrow> bool" where
  "is_key_char c = (is_upper c \<or> is_digit c \<or> c = CHR ''_'')"

text \<open>\<open>/\((KEY_[A-Z0-9_]+)\)/\<close>\<close>

definition paren_key_at :: "string \<Rightarrow> string option" where
  "paren_key_at str =
     (if startsWith str ''(KEY_'' then
        (let run = takeWhile is_key_char (drop 5 str); rest = dropWhile is_key_char (drop 5 str) in
         if run \<noteq> [] \<and> startsWith rest '')'' then Some (''KEY_'' @ run) else None)
      else None)"

text \<open>\<open>/\bKEY_[A-Z0-9_]+\b/\<close>\<close>

definition direct_key_at :: "string \<Rightarrow> string option" where
  "direct_key_at str =
     (if startsWith str ''KEY_'' then
        (let run = takeWhile is_key_char (drop 4 str); rest = dropWhile is_key_char (drop 4 str) in
         if run \<noteq> [] \<and> (case rest of [] \<Rightarrow> True | c # _ \<Rightarrow> \<not> is_word c)
         then Some (''KEY_'' @ run) else None)
      else None)"

text \<open>\<open>/\bkey\s+(\d+)\b/i\<close>\<close>

definition code_key_at :: "string \<Rightarrow> string option" where
  "code_key_at str =
     do { r \<leftarrow> lit_i ''key'' str; r1 \<leftarrow> spaces1 r; (ds, rest) \<leftarrow> digits1 r1;
          if (case rest of [] \<Rightarrow> True | c # _ \<Rightarrow> \<not> is_word c) then Some ds else None }"

definition keyName_of :: "string \<Rightarrow> string" where
  "keyName_of text =
     (case first_match paren_key_at text of
        Some k \<Rightarrow> k
      | None \<Rightarrow>
          (case first_match_b direct_key_at False text of
             Some k \<Rightarrow> k
           | None \<Rightarrow>
               (case first_match_b code_key_at False text of
                  Some ds \<Rightarrow> ''KEY_'' @ ds
                | None \<Rightarrow> ''KEY_UNKNOWN'')))"

subsection \<open>The watcher's callback\<close>

text \<open>
  The block the callback repeats for a left or right button: a click on a press, and on
  a release when the side is not recorded as pressed; then the record of the side.
\<close>

definition button_edge ::
  "side \<Rightarrow> bool \<Rightarrow> bool \<Rightarrow> source \<Rightarrow> PressedState \<Rightarrow> sys \<Rightarrow> PressedState \<times> sys"
where
  "button_edge sd isPressed isReleased src pressed s =
     (case sd of
        SideLeft \<Rightarrow>
          (pressed\<lparr>pressed_left :=
              (if isPressed then True else if isReleased then False else pressed_left pressed)\<rparr>,
           if isPressed \<or> (isReleased \<and> \<not> pressed_left pressed)
           then bumpClick SideLeft src s else s)
      | SideRight \<Rightarrow>
          (pressed\<lparr>pressed_right :=
              (if isPressed then True else if isReleased then False else pressed_right pressed)\<rparr>,
           if isPressed \<or> (isReleased \<and> \<not> pressed_right pressed)
           then bumpClick SideRight src s else s))"

definition pointer_scroll :: "string \<Rightarrow> sys \<Rightarrow> sys" where
  "pointer_scroll text s =
     (if test_i ''POINTER_SCROLL_'' text then
        (let vertical =
               (case parseAxis text ''vert'' of
                  Some v \<Rightarrow> Some v | None \<Rightarrow> parseAxis text ''vertical'');
             horizontal =
               (case parseAxis text ''horiz'' of
                  Some h \<Rightarrow> Some h | None \<Rightarrow> parseAxis text ''horizontal'')
         in bumpScroll vertical horizontal s)
      else s)"

definition pointer_button :: "string \<Rightarrow> string \<Rightarrow> sys \<Rightarrow> sys" where
  "pointer_button text eventId s =
     (if test_i ''POINTER_BUTTON'' text \<and> (test_i ''pressed'' text \<or> test_i ''released'' text) then
        (let isPressed = test_i ''pressed'' text;
             isReleased = test_i ''released'' text;
             isLeft = test_i ''BTN_LEFT'' text;
             isRight = test_i ''BTN_RIGHT'' text;
             deviceType = (case deviceTypes s eventId of Some d \<Rightarrow> d | None \<Rightarrow> DevUnknown);
             src = (if deviceType = DevTouchpad then Touchpad else Mouse);
             pressed =
               (case pressedByEvent s eventId of
                  Some p \<Rightarrow> p
                | None \<Rightarrow> \<lparr>pressed_left = False, pressed_right = False\<rparr>);
             fallback = map_option digits_value (first_match button_at text);
             (pressed', s') =
               (if isLeft then button_edge SideLeft isPressed isReleased src pressed s
                else if isRight then button_edge SideRight isPressed isReleased src pressed s
                else if fallback = Some 272 \<or> fallback = Some 1
                then button_edge SideLeft isPressed isReleased src pressed s
                else if fallback = Some 273 \<or> fallback = Some 3
                then button_edge SideRight isPressed isReleased src pressed s
                else (pressed, s))
         in s'\<lparr>pressedByEvent := (pressedByEvent s')(eventId \<mapsto> pressed')\<rparr>)
      else s)"

definition pointer_tap :: "string \<Rightarrow> sys \<Rightarrow> sys" where
  "pointer_tap text s =
     (if test_i ''POINTER_TAP'' text \<or> test_i ''TOUCHPAD_TAP'' text \<or> test_i ''GESTURE_TAP'' text then
        (let isRight =
               (first_match (finger_at CHR ''2'') text \<noteq> None \<or>
                first_match (finger_at CHR ''3'') text \<noteq> None)
         in bumpClick (if isRight then SideRight else SideLeft) Touchpad s)
      else s)"

definition gesture_hold :: "string \<Rightarrow> sys \<Rightarrow> sys" where
  "gesture_hold text s =
     (if test_i ''GESTURE_HOLD_BEGIN'' text then
        (let fingers =
               (case trailing_digits text of
                  Some ds \<Rightarrow> Number_decimal False ds []
                | None \<Rightarrow> Num 1);
             isRight = (Number_isFinite fingers \<and> \<not> js_gt (Num 2) fingers)
         in bumpClick (if isRight then SideRight else SideLeft) Touchpad s)
      else s)"

definition keyboard_key :: "string \<Rightarrow> sys \<Rightarrow> sys" where
  "keyboard_key text s =
     (if test_i ''KEYBOARD_KEY'' text \<and> test_i ''pressed'' text
      then bumpKey (keyName_of text) s else s)"

text \<open>
  The callback on a line that does not open with a brace. The branches for an added and
  for a removed device end with \<open>return\<close>; the other five follow one another.
\<close>

definition on_text :: "string \<Rightarrow> sys \<Rightarrow> sys" where
  "on_text text s =
     (let eventId = eventId_of text in
      if test_i ''DEVICE_ADDED'' text then
        s\<lparr>deviceTypes := (deviceTypes s)(eventId \<mapsto> classifyDevice text)\<rparr>
      else if test_i ''DEVICE_REMOVED'' text then
        s\<lparr>deviceTypes := (deviceTypes s)(eventId := None),
          pressedByEvent := (pressedByEvent s)(eventId := None)\<rparr>
      else
        keyboard_key text
          (gesture_hold text
            (pointer_tap text
              (pointer_button text eventId
                (pointer_scroll text s)))))"

text \<open>
  The callback on a line that opens with a brace; \<open>payload\<close> is \<open>None\<close> when
  \<open>JSON.parse\<close> throws. The result \<open>None\<close> is a \<open>TypeError\<close> that leaves the
  callback: nothing has been counted then.
\<close>

definition on_json :: "platform \<Rightarrow> json option \<Rightarrow> sys \<Rightarrow> sys option" where
  "on_json P payload s =
     (case payload of
        None \<Rightarrow> Some s
      | Some p \<Rightarrow>
          if \<not> truthy p \<or> \<not> typeof_object p then Some s
          else
            do { s1 \<leftarrow>
                   (if get_prop p ''type'' = Some (JStr ''pointer_button'') \<and>
                       get_prop p ''state'' = Some (JStr ''pressed'')
                    then
                      do { button \<leftarrow> Number_js P (get_prop p ''button'');
                           Some (if js_eq button (Num 272) then bumpClick SideLeft Mouse s
                                 else if js_eq button (Num 273) then bumpClick SideRight Mouse s
                                 else s) }
                    else Some s);
                 if (get_prop p ''type'' = Some (JStr ''key'') \<or>
                     get_prop p ''type'' = Some (JStr ''keyboard_key'')) \<and>
                    get_prop p ''state'' = Some (JStr ''pressed'')
                 then
                   do { k \<leftarrow>
                          (case get_prop p ''key'' of
                             None \<Rightarrow> Some ''UNKNOWN''
                           | Some JNull \<Rightarrow> Some ''UNKNOWN''
                           | Some (JStr str) \<Rightarrow> Some str
                           | Some w \<Rightarrow> String_conv P w);
                        Some (bumpKey (''KEY_'' @ k) s1) }
                 else Some s1 })"

definition onLine :: "platform \<Rightarrow> string \<Rightarrow> sys \<Rightarrow> sys option" where
  "onLine P line s =
     (let text = trim line in
      if text = [] then Some s
      else if startsWith text ''{'' then on_json P (JSON_parse P text) s
      else Some (on_text text s))"

subsection \<open>Notions used in the statements\<close>









text \<open>The module's variables at start, with no state file, used in the examples.\<close>

definition sys0 :: sys where
  "sys0 =
     \<lparr> state = defaultState ''2026-11-02'' (Num 1000), saveSource = None, writes = [],
       clock = 0, deviceTypes = Map.empty, pressedByEvent = Map.empty \<rparr>"







text \<open>
  A state file and a line of the event stream with what \<open>JSON.parse\<close> returns for them,
  and a platform that parses these two texts, used in the examples.
\<close>

definition stored_doc :: string where
  \<open>stored_doc =
     ''{"date":"2026-11-02","startedAt":0,"left":-5,"keyCounts":{"KEY_A":3,"KEY_B":0,"__proto__":5}}''\<close>

definition stored_parsed :: json where
  "stored_parsed =
     JObj [(''date'', JStr ''2026-11-02''), (''startedAt'', JNum (Num 0)),
           (''left'', JNum (Num (- 5))),
           (''keyCounts'',
              JObj [(''KEY_A'', JNum (Num 3)), (''KEY_B'', JNum (Num 0)),
                    (''__proto__'', JNum (Num 5))])]"

definition button_line :: string where
  \<open>button_line = ''{"type":"pointer_button","state":"pressed","button":272}''\<close>

definition button_parsed :: json where
  "button_parsed =
     JObj [(''type'', JStr ''pointer_button''), (''state'', JStr ''pressed''),
           (''button'', JNum (Num 272))]"

definition example_platform :: platform where
  "example_platform =
     \<lparr> JSON_parse =
         (\<lambda>text. if text = stored_doc then Some stored_parsed
                 else if text = button_line then Some button_parsed
                 else None),
       Number_conv = (\<lambda>_. Some NaN),
       String_conv = (\<lambda>_. None) \<rparr>"

text \<open>The number of clicks counted, both sides together.\<close>

definition click_count :: "InputState \<Rightarrow> jsnum" where
  "click_count st = js_add (left st) (right st)"

text \<open>
  A line of the textual kind that reports the release of the left button and nothing
  else: it matches \<open>POINTER_BUTTON\<close>, \<open>BTN_LEFT\<close> and \<open>released\<close>, and none of
  \<open>pressed\<close>, the two device patterns, the tap patterns and the hold pattern.
\<close>

definition left_release_line :: "string \<Rightarrow> bool" where
  "left_release_line text =
     (\<not> startsWith text ''{'' \<and>
      test_i ''POINTER_BUTTON'' text \<and> test_i ''BTN_LEFT'' text \<and>
      test_i ''released'' text \<and> \<not> test_i ''pressed'' text \<and>
      \<not> test_i ''DEVICE_ADDED'' text \<and> \<not> test_i ''DEVICE_REMOVED'' text \<and>
      \<not> test_i ''POINTER_TAP'' text \<and> \<not> test_i ''TOUCHPAD_TAP'' text \<and>
      \<not> test_i ''GESTURE_TAP'' text \<and> \<not> test_i ''GESTURE_HOLD_BEGIN'' text)"

text \<open>The press flag of the left button of a device; a device with no record has none.\<close>

definition left_pressed :: "sys \<Rightarrow> string \<Rightarrow> bool" where
  "left_pressed s eventId =
     (case pressedByEvent s eventId of Some p \<Rightarrow> pressed_left p | None \<Rightarrow> False)"

text \<open>
  The pair that the button branch computes before it stores the record of the device,
  for the proofs.
\<close>

definition button_choice :: "string \<Rightarrow> string \<Rightarrow> sys \<Rightarrow> PressedState \<times> sys" where
  "button_choice text eventId s =
     (let isPressed = test_i ''pressed'' text;
          isReleased = test_i ''released'' text;
          src = (if (case deviceTypes s eventId of Some d \<Rightarrow> d | None \<Rightarrow> DevUnknown) = DevTouchpad
                 then Touchpad else Mouse);
          pressed =
            (case pressedByEvent s eventId of
               Some p \<Rightarrow> p
             | None \<Rightarrow> \<lparr>pressed_left = False, pressed_right = False\<rparr>);
          fallback = map_option digits_value (first_match button_at text)
      in if test_i ''BTN_LEFT'' text then button_edge SideLeft isPressed isReleased src pressed s
         else if test_i ''BTN_RIGHT'' text then button_edge SideRight isPressed isReleased src pressed s
         else if fallback = Some 272 \<or> fallback = Some 1
         then button_edge SideLeft isPressed isReleased src pressed s
         else if fallback = Some 273 \<or> fallback = Some 3
         then button_edge SideRight isPressed isReleased src pressed s
         else (pressed, s))"

text \<open>Lines of the event stream used in the examples.\<close>

definition release_line :: string where
  "release_line = ''event5 POINTER_BUTTON +1.2s BTN_LEFT (272) released, seat count: 0''"

definition tap_key_line :: string where
  "tap_key_line = ''event9 POINTER_TAP KEYBOARD_KEY KEY_A pressed''"

definition added_line :: string where
  "added_line = ''event4 DEVICE_ADDED KEYBOARD_KEY pressed POINTER_TAP''"

section \<open>Properties\<close>

subsection \<open>Basic facts\<close>

lemma bumpClick_state:
  "state (bumpClick sd src s) = bumpClick_next sd src (state s)"
  by (simp add: bumpClick_def queueSave_def)

lemma js_add_zero [simp]: "js_add x (Num 0) = x"
  by (cases x) simp_all

lemma queueSave_fields [simp]:
  "state (queueSave s) = state s" "writes (queueSave s) = writes s"
  "clock (queueSave s) = clock s" "deviceTypes (queueSave s) = deviceTypes s"
  "pressedByEvent (queueSave s) = pressedByEvent s"
  by (simp_all add: queueSave_def)


lemma bumpKey_state: "state (bumpKey k s) = bumpKey_next k (state s)"
  by (simp add: bumpKey_def)




subsection \<open>Clicks keep the totals equal to the sums of their sources\<close>










subsection \<open>Day rollover\<close>

text \<open>
  C5. When \<open>ensureToday\<close> runs and the stored date is not the current day, the record
  becomes the fresh record of today: every counter zero, no key counts, nothing taken
  from the old record. The same call hands that record to \<open>saveState\<close>; the save timer
  is neither armed nor waited for.
\<close>

theorem ensureToday_rollover:
  assumes "date (state s) \<noteq> today"
  shows "state (ensureToday today now s) =
           \<lparr> date = today, startedAt = now, left = Num 0, right = Num 0, keys = Num 0,
             leftMouse = Num 0, rightMouse = Num 0, leftPad = Num 0, rightPad = Num 0,
             scrollUp = Num 0, scrollDown = Num 0, scrollLeft = Num 0, scrollRight = Num 0,
             keyCounts = [] \<rparr> \<and>
         writes (ensureToday today now s) = writes s @ [state (ensureToday today now s)] \<and>
         saveSource (ensureToday today now s) = saveSource s"
  using assms by (simp add: ensureToday_def Let_def defaultState_def saveState_def)

theorem ensureToday_rollover_witness:
  "date (state (bumpKey ''KEY_A'' sys0)) \<noteq> ''2026-11-03'' \<and>
   keys (state (bumpKey ''KEY_A'' sys0)) = Num 1 \<and>
   saveSource (bumpKey ''KEY_A'' sys0) = Some 2000 \<and>
   state (ensureToday ''2026-11-03'' (Num 5000) (bumpKey ''KEY_A'' sys0)) =
     defaultState ''2026-11-03'' (Num 5000) \<and>
   writes (ensureToday ''2026-11-03'' (Num 5000) (bumpKey ''KEY_A'' sys0)) =
     [defaultState ''2026-11-03'' (Num 5000)] \<and>
   saveSource (ensureToday ''2026-11-03'' (Num 5000) (bumpKey ''KEY_A'' sys0)) = Some 2000"
proof -
  have d: "date (state (bumpKey ''KEY_A'' sys0)) \<noteq> ''2026-11-03''"
    by (simp add: bumpKey_def bumpKey_next_def sys0_def defaultState_def Let_def)
  show ?thesis
    using d ensureToday_rollover [OF d, of "Num 5000"]
    by (simp add: bumpKey_def bumpKey_next_def sys0_def defaultState_def Let_def
        queueSave_def SAVE_DELAY_MS_def)
qed

subsection \<open>The save timer\<close>










subsection \<open>Loading the state file\<close>
















subsection \<open>Loading the key counts\<close>




subsection \<open>Loading the start time\<close>





subsection \<open>Loading the counters\<close>




subsection \<open>The watcher: basic facts\<close>

lemma js_add_commute: "js_add a b = js_add b a"
  by (cases a; cases b) simp_all

lemma js_add_assoc: "js_add (js_add a b) c = js_add a (js_add b c)"
  by (cases a; cases b; cases c) simp_all

lemma bumpClick_fields [simp]:
  "writes (bumpClick sd src s) = writes s"
  "clock (bumpClick sd src s) = clock s"
  "deviceTypes (bumpClick sd src s) = deviceTypes s"
  "pressedByEvent (bumpClick sd src s) = pressedByEvent s"
  by (simp_all add: bumpClick_def)

lemma bumpKey_fields [simp]:
  "writes (bumpKey k s) = writes s"
  "clock (bumpKey k s) = clock s"
  "deviceTypes (bumpKey k s) = deviceTypes s"
  "pressedByEvent (bumpKey k s) = pressedByEvent s"
  by (simp_all add: bumpKey_def)

lemma bumpScroll_fields [simp]:
  "writes (bumpScroll v h s) = writes s"
  "clock (bumpScroll v h s) = clock s"
  "deviceTypes (bumpScroll v h s) = deviceTypes s"
  "pressedByEvent (bumpScroll v h s) = pressedByEvent s"
  by (simp_all add: bumpScroll_def)

lemma bumpScroll_next_counts [simp]:
  "left (bumpScroll_next v h st) = left st"
  "right (bumpScroll_next v h st) = right st"
  "leftMouse (bumpScroll_next v h st) = leftMouse st"
  "rightMouse (bumpScroll_next v h st) = rightMouse st"
  "leftPad (bumpScroll_next v h st) = leftPad st"
  "rightPad (bumpScroll_next v h st) = rightPad st"
  "keys (bumpScroll_next v h st) = keys st"
  "keyCounts (bumpScroll_next v h st) = keyCounts st"
  "date (bumpScroll_next v h st) = date st"
  "startedAt (bumpScroll_next v h st) = startedAt st"
  by (simp_all add: bumpScroll_next_def Let_def split: option.splits)

lemma bumpScroll_counts [simp]:
  "left (state (bumpScroll v h s)) = left (state s)"
  "right (state (bumpScroll v h s)) = right (state s)"
  "keys (state (bumpScroll v h s)) = keys (state s)"
  "keyCounts (state (bumpScroll v h s)) = keyCounts (state s)"
  by (simp_all add: bumpScroll_def)

lemma pointer_scroll_fields [simp]:
  "deviceTypes (pointer_scroll text s) = deviceTypes s"
  "pressedByEvent (pointer_scroll text s) = pressedByEvent s"
  "left (state (pointer_scroll text s)) = left (state s)"
  "right (state (pointer_scroll text s)) = right (state s)"
  "keys (state (pointer_scroll text s)) = keys (state s)"
  "keyCounts (state (pointer_scroll text s)) = keyCounts (state s)"
  by (simp_all add: pointer_scroll_def Let_def)

lemma bumpClick_next_left [simp]:
  "left (bumpClick_next SideLeft src st) = js_add (left st) (Num 1)"
  "right (bumpClick_next SideLeft src st) = right st"
  "left (bumpClick_next SideRight src st) = left st"
  "right (bumpClick_next SideRight src st) = js_add (right st) (Num 1)"
  "keys (bumpClick_next sd src st) = keys st"
  "keyCounts (bumpClick_next sd src st) = keyCounts st"
  "scrollUp (bumpClick_next sd src st) = scrollUp st"
  "scrollDown (bumpClick_next sd src st) = scrollDown st"
  "scrollLeft (bumpClick_next sd src st) = scrollLeft st"
  "scrollRight (bumpClick_next sd src st) = scrollRight st"
  by (simp_all add: bumpClick_next_def split: side.splits)

lemma bumpKey_next_fields [simp]:
  "left (bumpKey_next k st) = left st"
  "right (bumpKey_next k st) = right st"
  "keys (bumpKey_next k st) = js_add (keys st) (Num 1)"
  "scrollUp (bumpKey_next k st) = scrollUp st"
  "scrollDown (bumpKey_next k st) = scrollDown st"
  "scrollLeft (bumpKey_next k st) = scrollLeft st"
  "scrollRight (bumpKey_next k st) = scrollRight st"
  by (simp_all add: bumpKey_next_def Let_def)

lemma trim_nonempty: "startsWith (trim line) ''{'' \<Longrightarrow> trim line \<noteq> []"
  by (auto simp: startsWith_def)

lemma onLine_text:
  "trim line \<noteq> [] \<Longrightarrow> \<not> startsWith (trim line) ''{'' \<Longrightarrow>
   onLine P line s = Some (on_text (trim line) s)"
  by (simp add: onLine_def Let_def)

text \<open>What the patterns give on the example lines.\<close>

lemma release_line_trim: "trim release_line = release_line"
  unfolding release_line_def by code_simp

lemma release_line_shape: "left_release_line release_line"
  unfolding release_line_def left_release_line_def by code_simp

lemma release_line_id: "eventId_of release_line = ''5''"
  unfolding release_line_def by code_simp

lemma tap_key_line_trim: "trim tap_key_line = tap_key_line"
  unfolding tap_key_line_def by code_simp

lemma tap_key_line_tests:
  "\<not> startsWith tap_key_line ''{''"
  "\<not> test_i ''DEVICE_ADDED'' tap_key_line" "\<not> test_i ''DEVICE_REMOVED'' tap_key_line"
  "\<not> test_i ''POINTER_BUTTON'' tap_key_line"
  "test_i ''POINTER_TAP'' tap_key_line" "\<not> test_i ''GESTURE_HOLD_BEGIN'' tap_key_line"
  "test_i ''KEYBOARD_KEY'' tap_key_line" "test_i ''pressed'' tap_key_line"
  unfolding tap_key_line_def by code_simp+

lemma added_line_trim: "trim added_line = added_line"
  unfolding added_line_def by code_simp

lemma added_line_tests:
  "\<not> startsWith added_line ''{''"
  "test_i ''DEVICE_ADDED'' added_line"
  "test_i ''POINTER_TAP'' added_line"
  "test_i ''KEYBOARD_KEY'' added_line" "test_i ''pressed'' added_line"
  "eventId_of added_line = ''4''"
  "classifyDevice added_line = DevKeyboard"
  unfolding added_line_def by code_simp+

lemma button_line_trim: "trim button_line = button_line"
  unfolding button_line_def by code_simp

lemma button_line_brace: "startsWith button_line ''{''"
  unfolding button_line_def by code_simp

lemma button_line_parse: "JSON_parse example_platform button_line = Some button_parsed"
  unfolding example_platform_def button_line_def stored_doc_def by simp

subsection \<open>A button event given as JSON\<close>

text \<open>
  C7. A line that parses to an object with \<open>type\<close> \<open>pointer_button\<close>, \<open>state\<close>
  \<open>pressed\<close> and a numeric \<open>button\<close>, such as
  \<open>{"type":"pointer_button","state":"pressed","button":272}\<close>: for the code 272 the
  record changes in \<open>left\<close> and \<open>leftMouse\<close> only, each one more; for 273 in
  \<open>right\<close> and \<open>rightMouse\<close> only; for any other code nothing changes.
\<close>

theorem json_pointer_button:
  assumes "startsWith (trim line) ''{''"
    and "JSON_parse P (trim line) = Some payload"
    and "get_prop payload ''type'' = Some (JStr ''pointer_button'')"
    and "get_prop payload ''state'' = Some (JStr ''pressed'')"
    and "get_prop payload ''button'' = Some (JNum b)"
  shows "map_option state (onLine P line s) =
           Some (if b = Num 272 then
                   (state s)\<lparr> left := js_add (left (state s)) (Num 1),
                              leftMouse := js_add (leftMouse (state s)) (Num 1) \<rparr>
                 else if b = Num 273 then
                   (state s)\<lparr> right := js_add (right (state s)) (Num 1),
                              rightMouse := js_add (rightMouse (state s)) (Num 1) \<rparr>
                 else state s) \<and>
         (b \<noteq> Num 272 \<and> b \<noteq> Num 273 \<longrightarrow> onLine P line s = Some s)"
proof -
  from assms(3) obtain ps where p: "payload = JObj ps"
    by (cases payload) (simp_all add: get_prop_def)
  then have obj: "truthy payload" "typeof_object payload"
    by (simp_all add: truthy_def typeof_object_def)
  have not_key: "get_prop payload ''type'' \<noteq> Some (JStr ''key'')"
    "get_prop payload ''type'' \<noteq> Some (JStr ''keyboard_key'')"
    using assms(3) by simp_all
  have "onLine P line s = on_json P (Some payload) s"
    using assms(1,2) trim_nonempty [OF assms(1)] by (simp add: onLine_def Let_def)
  also have "\<dots> = Some (if js_eq b (Num 272) then bumpClick SideLeft Mouse s
                        else if js_eq b (Num 273) then bumpClick SideRight Mouse s
                        else s)"
    using obj not_key assms(3,4,5) by (simp add: on_json_def Number_js_def)
  finally show ?thesis
    by (simp add: js_eq_def bumpClick_state bumpClick_next_def)
qed

theorem json_pointer_button_witness:
  "startsWith (trim button_line) ''{'' \<and>
   JSON_parse example_platform (trim button_line) = Some button_parsed \<and>
   get_prop button_parsed ''type'' = Some (JStr ''pointer_button'') \<and>
   get_prop button_parsed ''state'' = Some (JStr ''pressed'') \<and>
   get_prop button_parsed ''button'' = Some (JNum (Num 272)) \<and>
   map_option state (onLine example_platform button_line sys0) =
     Some ((state sys0)\<lparr>left := Num 1, leftMouse := Num 1\<rparr>)"
proof -
  have a: "startsWith (trim button_line) ''{''"
    by (simp add: button_line_trim button_line_brace)
  have b: "JSON_parse example_platform (trim button_line) = Some button_parsed"
    by (simp add: button_line_trim button_line_parse)
  have c: "get_prop button_parsed ''type'' = Some (JStr ''pointer_button'')"
    and d: "get_prop button_parsed ''state'' = Some (JStr ''pressed'')"
    and e: "get_prop button_parsed ''button'' = Some (JNum (Num 272))"
    by (simp_all add: button_parsed_def get_prop_def)
  have z: "left (state sys0) = Num 0" "leftMouse (state sys0) = Num 0"
    by (simp_all add: sys0_def defaultState_def)
  show ?thesis
    using a b c d e json_pointer_button [OF a b c d e, of sys0] by (simp add: z)
qed

subsection \<open>Release of a button that is not recorded as pressed\<close>

lemma button_edge_left_release:
  "\<not> pressed_left pressed \<Longrightarrow>
   button_edge SideLeft False True src pressed s =
     (pressed\<lparr>pressed_left := False\<rparr>, bumpClick SideLeft src s)"
  by (simp add: button_edge_def)

lemma pointer_button_left_release:
  assumes "test_i ''POINTER_BUTTON'' text" "test_i ''BTN_LEFT'' text"
    "test_i ''released'' text" "\<not> test_i ''pressed'' text"
    "\<not> left_pressed s eventId"
  shows "pointer_button text eventId s =
           (bumpClick SideLeft
              (if (case deviceTypes s eventId of Some d \<Rightarrow> d | None \<Rightarrow> DevUnknown) = DevTouchpad
               then Touchpad else Mouse) s)
           \<lparr>pressedByEvent :=
              (pressedByEvent s)(eventId \<mapsto>
                (case pressedByEvent s eventId of
                   Some p \<Rightarrow> p
                 | None \<Rightarrow> \<lparr>pressed_left = False, pressed_right = False\<rparr>)
                \<lparr>pressed_left := False\<rparr>)\<rparr>"
proof -
  let ?pressed = "case pressedByEvent s eventId of
                    Some p \<Rightarrow> p | None \<Rightarrow> \<lparr>pressed_left = False, pressed_right = False\<rparr>"
  have "\<not> pressed_left ?pressed"
    using assms(5) by (simp add: left_pressed_def split: option.splits)
  then show ?thesis
    using assms(1-4)
    by (simp add: pointer_button_def Let_def button_edge_left_release)
qed

lemma on_text_left_release:
  assumes "left_release_line text" "\<not> left_pressed s (eventId_of text)"
  shows "left (state (on_text text s)) = js_add (left (state s)) (Num 1) \<and>
         right (state (on_text text s)) = right (state s) \<and>
         \<not> left_pressed (on_text text s) (eventId_of text)"
proof -
  let ?id = "eventId_of text"
  let ?s1 = "pointer_scroll text s"
  from assms(1) have pats:
    "test_i ''POINTER_BUTTON'' text" "test_i ''BTN_LEFT'' text"
    "test_i ''released'' text" "\<not> test_i ''pressed'' text"
    "\<not> test_i ''DEVICE_ADDED'' text" "\<not> test_i ''DEVICE_REMOVED'' text"
    "\<not> test_i ''POINTER_TAP'' text" "\<not> test_i ''TOUCHPAD_TAP'' text"
    "\<not> test_i ''GESTURE_TAP'' text" "\<not> test_i ''GESTURE_HOLD_BEGIN'' text"
    by (simp_all add: left_release_line_def)
  have flag: "\<not> left_pressed ?s1 ?id"
    using assms(2) by (simp add: left_pressed_def)
  note pb = pointer_button_left_release [OF pats(1-4) flag]
  have "on_text text s = pointer_button text ?id ?s1"
    using pats by (simp add: on_text_def Let_def pointer_tap_def gesture_hold_def keyboard_key_def)
  with pb show ?thesis
    by (simp add: bumpClick_state left_pressed_def)
qed

text \<open>
  C1, as amended. For every device, a line that reports the release of the left button,
  handled while the left button of that device is not recorded as pressed, counts
  exactly one left click and leaves the flag false. A second such line for the same
  device with no press in between therefore counts one more left click: the flag is
  still false, and a release with the flag false is what counts a click.
\<close>

theorem orphan_release_clicks:
  assumes "left_release_line (trim line1)"
    and "\<not> left_pressed s (eventId_of (trim line1))"
    and "left_release_line (trim line2)"
    and "eventId_of (trim line2) = eventId_of (trim line1)"
  shows "\<exists>s1 s2.
           onLine P line1 s = Some s1 \<and>
           left (state s1) = js_add (left (state s)) (Num 1) \<and>
           right (state s1) = right (state s) \<and>
           \<not> left_pressed s1 (eventId_of (trim line1)) \<and>
           onLine P line2 s1 = Some s2 \<and>
           left (state s2) = js_add (left (state s1)) (Num 1) \<and>
           right (state s2) = right (state s1) \<and>
           \<not> left_pressed s2 (eventId_of (trim line1))"
proof -
  have line: "onLine P l t = Some (on_text (trim l) t)" if "left_release_line (trim l)" for l t
  proof -
    from that have "test_i ''BTN_LEFT'' (trim l)" "\<not> startsWith (trim l) ''{''"
      by (simp_all add: left_release_line_def)
    moreover from this(1) have "trim l \<noteq> []"
      by (auto simp: test_i_def toLowerCase_def startsWith_def)
    ultimately show ?thesis by (simp add: onLine_def Let_def)
  qed
  let ?s1 = "on_text (trim line1) s"
  let ?s2 = "on_text (trim line2) ?s1"
  note first = on_text_left_release [OF assms(1,2)]
  from first have flag: "\<not> left_pressed ?s1 (eventId_of (trim line2))"
    by (simp add: assms(4))
  note second = on_text_left_release [OF assms(3) flag]
  from first second line [OF assms(1)] line [OF assms(3)] assms(4)
  show ?thesis by simp
qed

theorem orphan_release_clicks_witness:
  "left_release_line (trim release_line) \<and>
   \<not> left_pressed sys0 (eventId_of (trim release_line)) \<and>
   (\<exists>s1 s2. onLine example_platform release_line sys0 = Some s1 \<and>
            left (state s1) = Num 1 \<and>
            onLine example_platform release_line s1 = Some s2 \<and>
            left (state s2) = Num 2)"
proof -
  have a: "left_release_line (trim release_line)"
    by (simp add: release_line_trim release_line_shape)
  have b: "\<not> left_pressed sys0 (eventId_of (trim release_line))"
    by (simp add: left_pressed_def sys0_def)
  have z: "left (state sys0) = Num 0"
    by (simp add: sys0_def defaultState_def)
  from orphan_release_clicks [OF a b a refl, of example_platform]
  obtain s1 s2 where
    "onLine example_platform release_line sys0 = Some s1"
    "left (state s1) = js_add (left (state sys0)) (Num 1)"
    "onLine example_platform release_line s1 = Some s2"
    "left (state s2) = js_add (left (state s1)) (Num 1)"
    by blast
  then have "onLine example_platform release_line sys0 = Some s1 \<and>
      left (state s1) = Num 1 \<and>
      onLine example_platform release_line s1 = Some s2 \<and>
      left (state s2) = Num 2"
    using z by simp
  with a b show ?thesis by blast
qed

text \<open>
  C1 as stated fails: the example line is handled twice from the start state, where no
  press is recorded for device 5. The first release counts one click, and the second
  release, with no press in between, counts a second one instead of none.
\<close>

theorem orphan_release_clicks_counterexample:
  "left_release_line (trim release_line) \<and>
   \<not> left_pressed sys0 (eventId_of (trim release_line)) \<and>
   map_option (left \<circ> state) (onLine example_platform release_line sys0) = Some (Num 1) \<and>
   map_option (left \<circ> state)
     (Option.bind (onLine example_platform release_line sys0)
        (onLine example_platform release_line)) = Some (Num 2)"
proof -
  let ?s1 = "on_text release_line sys0"
  have a: "left_release_line release_line" by (rule release_line_shape)
  have b: "\<not> left_pressed sys0 (eventId_of release_line)"
    by (simp add: left_pressed_def sys0_def)
  have z: "left (state sys0) = Num 0"
    by (simp add: sys0_def defaultState_def)
  have ne: "trim release_line \<noteq> []"
    by (simp add: release_line_trim) (simp add: release_line_def)
  have nb: "\<not> startsWith (trim release_line) ''{''"
    using a by (simp add: release_line_trim left_release_line_def)
  have run: "onLine example_platform release_line s = Some (on_text release_line s)" for s
    using onLine_text [OF ne nb, of example_platform s] by (simp add: release_line_trim)
  note first = on_text_left_release [OF a b]
  then have flag: "\<not> left_pressed ?s1 (eventId_of release_line)" by simp
  note second = on_text_left_release [OF a flag]
  from first second z a b show ?thesis
    by (simp add: run release_line_trim)
qed

subsection \<open>The branches of the textual dispatch\<close>

lemma click_count_bumpClick_next:
  "click_count (bumpClick_next sd src st) = js_add (click_count st) (Num 1)"
proof (cases sd)
  case SideLeft
  have "js_add (js_add (left st) (Num 1)) (right st) = js_add (js_add (left st) (right st)) (Num 1)"
    by (simp add: js_add_assoc js_add_commute [of "Num 1"])
  with SideLeft show ?thesis by (simp add: click_count_def)
next
  case SideRight
  then show ?thesis by (simp add: click_count_def js_add_assoc)
qed

lemma pointer_tap_fields:
  "pressedByEvent (pointer_tap text s) = pressedByEvent s"
  "keys (state (pointer_tap text s)) = keys (state s)"
  "scrollUp (state (pointer_tap text s)) = scrollUp (state s)"
  "scrollDown (state (pointer_tap text s)) = scrollDown (state s)"
  "scrollLeft (state (pointer_tap text s)) = scrollLeft (state s)"
  "scrollRight (state (pointer_tap text s)) = scrollRight (state s)"
  "click_count (state (pointer_tap text s)) =
     js_add (click_count (state s))
       (Num (if test_i ''POINTER_TAP'' text \<or> test_i ''TOUCHPAD_TAP'' text \<or>
                test_i ''GESTURE_TAP'' text then 1 else 0))"
  by (simp_all add: pointer_tap_def Let_def bumpClick_state click_count_bumpClick_next)

lemma gesture_hold_fields:
  "pressedByEvent (gesture_hold text s) = pressedByEvent s"
  "keys (state (gesture_hold text s)) = keys (state s)"
  "scrollUp (state (gesture_hold text s)) = scrollUp (state s)"
  "scrollDown (state (gesture_hold text s)) = scrollDown (state s)"
  "scrollLeft (state (gesture_hold text s)) = scrollLeft (state s)"
  "scrollRight (state (gesture_hold text s)) = scrollRight (state s)"
  "click_count (state (gesture_hold text s)) =
     js_add (click_count (state s)) (Num (if test_i ''GESTURE_HOLD_BEGIN'' text then 1 else 0))"
  by (simp_all add: gesture_hold_def Let_def bumpClick_state click_count_bumpClick_next)

lemma keyboard_key_fields:
  "pressedByEvent (keyboard_key text s) = pressedByEvent s"
  "scrollUp (state (keyboard_key text s)) = scrollUp (state s)"
  "scrollDown (state (keyboard_key text s)) = scrollDown (state s)"
  "scrollLeft (state (keyboard_key text s)) = scrollLeft (state s)"
  "scrollRight (state (keyboard_key text s)) = scrollRight (state s)"
  "click_count (state (keyboard_key text s)) = click_count (state s)"
  "keys (state (keyboard_key text s)) =
     js_add (keys (state s))
       (Num (if test_i ''KEYBOARD_KEY'' text \<and> test_i ''pressed'' text then 1 else 0))"
  by (simp_all add: keyboard_key_def bumpKey_state click_count_def)

lemma button_edge_fields:
  "keys (state (snd (button_edge sd p r src pressed s))) = keys (state s)"
  "scrollUp (state (snd (button_edge sd p r src pressed s))) = scrollUp (state s)"
  "scrollDown (state (snd (button_edge sd p r src pressed s))) = scrollDown (state s)"
  "scrollLeft (state (snd (button_edge sd p r src pressed s))) = scrollLeft (state s)"
  "scrollRight (state (snd (button_edge sd p r src pressed s))) = scrollRight (state s)"
  "pressedByEvent (snd (button_edge sd p r src pressed s)) = pressedByEvent s"
  "deviceTypes (snd (button_edge sd p r src pressed s)) = deviceTypes s"
  by (cases sd; simp add: button_edge_def bumpClick_state)+

lemma button_edge_agree:
  assumes "left (state s) = left (state t)" "right (state s) = right (state t)"
  shows "fst (button_edge sd p r src pressed s) = fst (button_edge sd p r src pressed t)"
    and "left (state (snd (button_edge sd p r src pressed s))) =
         left (state (snd (button_edge sd p r src pressed t)))"
    and "right (state (snd (button_edge sd p r src pressed s))) =
         right (state (snd (button_edge sd p r src pressed t)))"
  using assms by (cases sd; simp add: button_edge_def bumpClick_state)+

lemma pointer_button_fields:
  "keys (state (pointer_button text eventId s)) = keys (state s)"
  "scrollUp (state (pointer_button text eventId s)) = scrollUp (state s)"
  "scrollDown (state (pointer_button text eventId s)) = scrollDown (state s)"
  "scrollLeft (state (pointer_button text eventId s)) = scrollLeft (state s)"
  "scrollRight (state (pointer_button text eventId s)) = scrollRight (state s)"
  by (simp_all add: pointer_button_def Let_def split_beta button_edge_fields)

lemma pointer_button_choice:
  "pointer_button text eventId s =
     (if test_i ''POINTER_BUTTON'' text \<and> (test_i ''pressed'' text \<or> test_i ''released'' text)
      then (snd (button_choice text eventId s))
             \<lparr>pressedByEvent :=
                (pressedByEvent (snd (button_choice text eventId s)))
                  (eventId \<mapsto> fst (button_choice text eventId s))\<rparr>
      else s)"
  by (simp only: pointer_button_def button_choice_def Let_def split_beta)

lemma button_choice_agree:
  assumes "left (state s) = left (state t)" "right (state s) = right (state t)"
    "deviceTypes s = deviceTypes t" "pressedByEvent s = pressedByEvent t"
  shows "fst (button_choice text eventId s) = fst (button_choice text eventId t)"
    and "left (state (snd (button_choice text eventId s))) =
         left (state (snd (button_choice text eventId t)))"
    and "right (state (snd (button_choice text eventId s))) =
         right (state (snd (button_choice text eventId t)))"
    and "pressedByEvent (snd (button_choice text eventId s)) =
         pressedByEvent (snd (button_choice text eventId t))"
proof -
  note E = button_edge_agree [OF assms(1,2)]
  have pick:
    "fst (if c1 then button_edge SideLeft p r src pr s
          else if c2 then button_edge SideRight p r src pr s
          else if c3 then button_edge SideLeft p r src pr s
          else if c4 then button_edge SideRight p r src pr s else (pr, s)) =
     fst (if c1 then button_edge SideLeft p r src pr t
          else if c2 then button_edge SideRight p r src pr t
          else if c3 then button_edge SideLeft p r src pr t
          else if c4 then button_edge SideRight p r src pr t else (pr, t))"
    "left (state (snd (if c1 then button_edge SideLeft p r src pr s
          else if c2 then button_edge SideRight p r src pr s
          else if c3 then button_edge SideLeft p r src pr s
          else if c4 then button_edge SideRight p r src pr s else (pr, s)))) =
     left (state (snd (if c1 then button_edge SideLeft p r src pr t
          else if c2 then button_edge SideRight p r src pr t
          else if c3 then button_edge SideLeft p r src pr t
          else if c4 then button_edge SideRight p r src pr t else (pr, t))))"
    "right (state (snd (if c1 then button_edge SideLeft p r src pr s
          else if c2 then button_edge SideRight p r src pr s
          else if c3 then button_edge SideLeft p r src pr s
          else if c4 then button_edge SideRight p r src pr s else (pr, s)))) =
     right (state (snd (if c1 then button_edge SideLeft p r src pr t
          else if c2 then button_edge SideRight p r src pr t
          else if c3 then button_edge SideLeft p r src pr t
          else if c4 then button_edge SideRight p r src pr t else (pr, t))))"
    "pressedByEvent (snd (if c1 then button_edge SideLeft p r src pr s
          else if c2 then button_edge SideRight p r src pr s
          else if c3 then button_edge SideLeft p r src pr s
          else if c4 then button_edge SideRight p r src pr s else (pr, s))) =
     pressedByEvent (snd (if c1 then button_edge SideLeft p r src pr t
          else if c2 then button_edge SideRight p r src pr t
          else if c3 then button_edge SideLeft p r src pr t
          else if c4 then button_edge SideRight p r src pr t else (pr, t)))"
    for c1 c2 c3 c4 p r src pr
    using assms(1,2,4) by (simp_all add: E button_edge_fields)
  show "fst (button_choice text eventId s) = fst (button_choice text eventId t)"
    and "left (state (snd (button_choice text eventId s))) =
         left (state (snd (button_choice text eventId t)))"
    and "right (state (snd (button_choice text eventId s))) =
         right (state (snd (button_choice text eventId t)))"
    and "pressedByEvent (snd (button_choice text eventId s)) =
         pressedByEvent (snd (button_choice text eventId t))"
    unfolding button_choice_def Let_def assms(3,4) by (rule pick)+
qed

lemma pointer_button_agree:
  assumes "left (state s) = left (state t)" "right (state s) = right (state t)"
    "deviceTypes s = deviceTypes t" "pressedByEvent s = pressedByEvent t"
  shows "pressedByEvent (pointer_button text eventId s) =
         pressedByEvent (pointer_button text eventId t)"
    and "left (state (pointer_button text eventId s)) =
         left (state (pointer_button text eventId t))"
    and "right (state (pointer_button text eventId s)) =
         right (state (pointer_button text eventId t))"
proof -
  note C = button_choice_agree [OF assms, of "text" eventId]
  let ?G = "test_i ''POINTER_BUTTON'' text \<and> (test_i ''pressed'' text \<or> test_i ''released'' text)"
  have "pressedByEvent (pointer_button text eventId s) =
          pressedByEvent (pointer_button text eventId t) \<and>
        left (state (pointer_button text eventId s)) =
          left (state (pointer_button text eventId t)) \<and>
        right (state (pointer_button text eventId s)) =
          right (state (pointer_button text eventId t))"
  proof (cases ?G)
    case True
    show ?thesis
      unfolding pointer_button_choice if_P [OF True] using C by simp
  next
    case False
    show ?thesis
      unfolding pointer_button_choice if_not_P [OF False] using assms by simp
  qed
  then show "pressedByEvent (pointer_button text eventId s) =
         pressedByEvent (pointer_button text eventId t)"
    and "left (state (pointer_button text eventId s)) =
         left (state (pointer_button text eventId t))"
    and "right (state (pointer_button text eventId s)) =
         right (state (pointer_button text eventId t))"
    by simp_all
qed

lemma pointer_button_after_scroll:
  "pressedByEvent (pointer_button text eventId (pointer_scroll text s)) =
   pressedByEvent (pointer_button text eventId s)"
  "click_count (state (pointer_button text eventId (pointer_scroll text s))) =
   click_count (state (pointer_button text eventId s))"
  using pointer_button_agree [of "pointer_scroll text s" s "text" eventId]
  by (simp_all add: click_count_def)

text \<open>
  C4, as amended. On a line of the textual kind the branches for an added and for a
  removed device are exclusive: such a line changes the device registry (and, when
  removed, the press records) and nothing else, whatever other patterns it matches. On a
  line that matches neither, the other five branches are not exclusive and every one
  whose pattern matches takes effect: the scroll counters are those the scroll branch
  leaves, the press records are those the button branch leaves, the clicks are those of
  the button branch plus one for a tap pattern plus one for the hold pattern, and
  \<open>keys\<close> is one more when the line matches \<open>KEYBOARD_KEY\<close> and \<open>pressed\<close>.
\<close>

theorem text_dispatch:
  assumes "trim line \<noteq> []" and "\<not> startsWith (trim line) ''{''"
  shows "\<exists>s'. onLine P line s = Some s' \<and>
          (let text = trim line; eventId = eventId_of text in
             (test_i ''DEVICE_ADDED'' text \<longrightarrow>
                s' = s\<lparr>deviceTypes := (deviceTypes s)(eventId \<mapsto> classifyDevice text)\<rparr>) \<and>
             (\<not> test_i ''DEVICE_ADDED'' text \<and> test_i ''DEVICE_REMOVED'' text \<longrightarrow>
                s' = s\<lparr>deviceTypes := (deviceTypes s)(eventId := None),
                       pressedByEvent := (pressedByEvent s)(eventId := None)\<rparr>) \<and>
             (\<not> test_i ''DEVICE_ADDED'' text \<and> \<not> test_i ''DEVICE_REMOVED'' text \<longrightarrow>
                scrollUp (state s') = scrollUp (state (pointer_scroll text s)) \<and>
                scrollDown (state s') = scrollDown (state (pointer_scroll text s)) \<and>
                scrollLeft (state s') = scrollLeft (state (pointer_scroll text s)) \<and>
                scrollRight (state s') = scrollRight (state (pointer_scroll text s)) \<and>
                pressedByEvent s' = pressedByEvent (pointer_button text eventId s) \<and>
                click_count (state s') =
                  js_add
                    (js_add (click_count (state (pointer_button text eventId s)))
                       (Num (if test_i ''POINTER_TAP'' text \<or> test_i ''TOUCHPAD_TAP'' text \<or>
                                test_i ''GESTURE_TAP'' text then 1 else 0)))
                    (Num (if test_i ''GESTURE_HOLD_BEGIN'' text then 1 else 0)) \<and>
                keys (state s') =
                  js_add (keys (state s))
                    (Num (if test_i ''KEYBOARD_KEY'' text \<and> test_i ''pressed'' text
                          then 1 else 0))))"
proof -
  let ?text = "trim line"
  let ?id = "eventId_of ?text"
  have run: "onLine P line s = Some (on_text ?text s)"
    using assms by (simp add: onLine_def Let_def)
  have added: "on_text ?text s = s\<lparr>deviceTypes := (deviceTypes s)(?id \<mapsto> classifyDevice ?text)\<rparr>"
    if "test_i ''DEVICE_ADDED'' ?text"
    using that by (simp add: on_text_def Let_def)
  have removed: "on_text ?text s = s\<lparr>deviceTypes := (deviceTypes s)(?id := None),
                       pressedByEvent := (pressedByEvent s)(?id := None)\<rparr>"
    if "\<not> test_i ''DEVICE_ADDED'' ?text" "test_i ''DEVICE_REMOVED'' ?text"
    using that by (simp add: on_text_def Let_def)
  have chain: "on_text ?text s =
      keyboard_key ?text (gesture_hold ?text (pointer_tap ?text
        (pointer_button ?text ?id (pointer_scroll ?text s))))"
    if "\<not> test_i ''DEVICE_ADDED'' ?text" "\<not> test_i ''DEVICE_REMOVED'' ?text"
    using that by (simp add: on_text_def Let_def)
  have others:
    "scrollUp (state (on_text ?text s)) = scrollUp (state (pointer_scroll ?text s)) \<and>
     scrollDown (state (on_text ?text s)) = scrollDown (state (pointer_scroll ?text s)) \<and>
     scrollLeft (state (on_text ?text s)) = scrollLeft (state (pointer_scroll ?text s)) \<and>
     scrollRight (state (on_text ?text s)) = scrollRight (state (pointer_scroll ?text s)) \<and>
     pressedByEvent (on_text ?text s) = pressedByEvent (pointer_button ?text ?id s) \<and>
     click_count (state (on_text ?text s)) =
       js_add
         (js_add (click_count (state (pointer_button ?text ?id s)))
            (Num (if test_i ''POINTER_TAP'' ?text \<or> test_i ''TOUCHPAD_TAP'' ?text \<or>
                     test_i ''GESTURE_TAP'' ?text then 1 else 0)))
         (Num (if test_i ''GESTURE_HOLD_BEGIN'' ?text then 1 else 0)) \<and>
     keys (state (on_text ?text s)) =
       js_add (keys (state s))
         (Num (if test_i ''KEYBOARD_KEY'' ?text \<and> test_i ''pressed'' ?text then 1 else 0))"
    if "\<not> test_i ''DEVICE_ADDED'' ?text" "\<not> test_i ''DEVICE_REMOVED'' ?text"
    unfolding chain [OF that]
    by (simp only: keyboard_key_fields gesture_hold_fields pointer_tap_fields
        pointer_button_fields pointer_button_after_scroll pointer_scroll_fields simp_thms)
  show ?thesis
    unfolding run Let_def using added removed others by blast
qed

theorem text_dispatch_witness:
  "trim tap_key_line \<noteq> [] \<and> \<not> startsWith (trim tap_key_line) ''{'' \<and>
   test_i ''POINTER_TAP'' (trim tap_key_line) \<and>
   test_i ''KEYBOARD_KEY'' (trim tap_key_line) \<and> test_i ''pressed'' (trim tap_key_line) \<and>
   (\<exists>s'. onLine example_platform tap_key_line sys0 = Some s' \<and>
         click_count (state s') = Num 1 \<and> keys (state s') = Num 1)"
proof -
  have a: "trim tap_key_line \<noteq> []"
    by (simp add: tap_key_line_trim) (simp add: tap_key_line_def)
  have b: "\<not> startsWith (trim tap_key_line) ''{''"
    by (simp add: tap_key_line_trim tap_key_line_tests)
  have button: "pointer_button tap_key_line (eventId_of tap_key_line) sys0 = sys0"
    by (simp add: pointer_button_def tap_key_line_tests)
  have z: "click_count (state sys0) = Num 0" "keys (state sys0) = Num 0"
    by (simp_all add: click_count_def sys0_def defaultState_def)
  from text_dispatch [OF a b, of example_platform sys0]
  obtain s' where "onLine example_platform tap_key_line sys0 = Some s'"
    and "click_count (state s') = Num 1" and "keys (state s') = Num 1"
    by (auto simp: Let_def tap_key_line_trim tap_key_line_tests button z)
  with a b show ?thesis
    by (auto simp: tap_key_line_trim tap_key_line_tests)
qed

text \<open>
  C4 as stated fails: the example line matches \<open>DEVICE_ADDED\<close> and also
  \<open>POINTER_TAP\<close> and \<open>KEYBOARD_KEY\<close> with \<open>pressed\<close>. The device is registered, and
  neither a click nor a key is counted.
\<close>

theorem text_dispatch_counterexample:
  "trim added_line \<noteq> [] \<and> \<not> startsWith (trim added_line) ''{'' \<and>
   test_i ''DEVICE_ADDED'' (trim added_line) \<and> test_i ''POINTER_TAP'' (trim added_line) \<and>
   test_i ''KEYBOARD_KEY'' (trim added_line) \<and> test_i ''pressed'' (trim added_line) \<and>
   onLine example_platform added_line sys0 =
     Some (sys0\<lparr>deviceTypes := (deviceTypes sys0)(''4'' \<mapsto> DevKeyboard)\<rparr>) \<and>
   map_option (click_count \<circ> state) (onLine example_platform added_line sys0) = Some (Num 0) \<and>
   map_option (keys \<circ> state) (onLine example_platform added_line sys0) = Some (Num 0)"
proof -
  have a: "trim added_line \<noteq> []"
    by (simp add: added_line_trim) (simp add: added_line_def)
  have b: "\<not> startsWith (trim added_line) ''{''"
    by (simp add: added_line_trim added_line_tests)
  have run: "onLine example_platform added_line sys0 =
      Some (sys0\<lparr>deviceTypes := (deviceTypes sys0)(''4'' \<mapsto> DevKeyboard)\<rparr>)"
    using onLine_text [OF a b, of example_platform sys0]
    by (simp add: added_line_trim on_text_def Let_def added_line_tests)
  have z: "click_count (state sys0) = Num 0" "keys (state sys0) = Num 0"
    by (simp_all add: click_count_def sys0_def defaultState_def)
  from a b run z show ?thesis
    by (simp add: added_line_trim added_line_tests)
qed

subsection \<open>Key counts\<close>

























end
